theory Spec2Isabelle
  imports Main "HOL-Library.AList"
begin

chapter \<open>A context store for Node-RED on a Valkey/Redis backend\<close>

text \<open>
  The program is the class \<^verbatim>\<open>ValkeyContext\<close> of
  \<^verbatim>\<open>src/context.ts\<close>: its constructor, \<^verbatim>\<open>open\<close>,
  \<^verbatim>\<open>close\<close>, \<^verbatim>\<open>get\<close>, \<^verbatim>\<open>set\<close>,
  \<^verbatim>\<open>keys\<close>, \<^verbatim>\<open>delete\<close>, \<^verbatim>\<open>clean\<close>,
  their private helpers, and the two Lua scripts it carries.  The embedding is shallow:
  \<^item> a function of the class is a function from the state before to an outcome and the
    state after; an outcome is \<open>Inl\<close> of an error (what the callback gets as its
    first argument, or what the promise rejects with) or \<open>Inr\<close> of a result;
  \<^item> the state holds the fields of the object, the key space of the backend and the
    commands handed to the client;
  \<^item> each Lua script is a function on the key space: the backend runs a script as one
    unit, and nothing here runs beside it;
  \<^item> what the program calls but does not contain is given by definitions of its own
    (the JSON text of \<^verbatim>\<open>JSON.stringify\<close> and \<^verbatim>\<open>JSON.parse\<close>,
    the tables of \<^verbatim>\<open>cjson\<close>, the pattern match of
    \<^verbatim>\<open>KEYS\<close>) or taken as a parameter (zlib, the answers of the network).
\<close>

section \<open>Strings\<close>

text \<open>
  A JavaScript string is a sequence of UTF-16 code units.  The model has the code units
  0..255, one \<^typ>\<open>char\<close> each, so \<^const>\<open>length\<close> is the
  \<^verbatim>\<open>.length\<close> of the source, \<^term>\<open>take\<close> and
  \<^term>\<open>drop\<close> are \<^verbatim>\<open>substring\<close>, and the number of bytes
  a string takes as UTF-8 (the form in which the backend holds it) is
  \<open>utf8_length\<close>: a code unit below 128 is one byte, one from 128 to 255 is two.
\<close>

abbreviation dquote :: char where
  "dquote \<equiv> CHR 0x22"

abbreviation backslash :: char where
  "backslash \<equiv> CHR 0x5C"

definition utf8_length :: "string \<Rightarrow> nat" where
  "utf8_length s = length s + length (filter (\<lambda>c. (128::nat) \<le> of_char c) s)"

definition startsWith :: "string \<Rightarrow> string \<Rightarrow> bool" where
  "startsWith s p = (take (length p) s = p)"

definition endsWith :: "string \<Rightarrow> string \<Rightarrow> bool" where
  "endsWith s p = (length p \<le> length s \<and> drop (length s - length p) s = p)"

text \<open>\<^verbatim>\<open>s.split(sep)\<close> for a separator of one character: empty pieces are kept.\<close>

fun split :: "char \<Rightarrow> string \<Rightarrow> string list" where
  "split sep [] = [[]]"
| "split sep (c # cs) =
     (if c = sep then [] # split sep cs
      else (case split sep cs of [] \<Rightarrow> [[c]] | p # ps \<Rightarrow> (c # p) # ps))"

text \<open>\<^verbatim>\<open>parts.join(sep)\<close>.\<close>

fun join :: "string \<Rightarrow> string list \<Rightarrow> string" where
  "join sep [] = []"
| "join sep [x] = x"
| "join sep (x # y # ys) = x @ sep @ join sep (y # ys)"

text \<open>
  Lua's \<^verbatim>\<open>string.gmatch(path, "[^.]+")\<close>: the maximal non-empty runs of
  characters other than the dot, in order.  Unlike \<open>split\<close> it yields no empty piece.
\<close>

definition gmatch_parts :: "string \<Rightarrow> string list" where
  "gmatch_parts path = filter (\<lambda>p. p \<noteq> []) (split (CHR ''.'') path)"

subsection \<open>Decimal and hexadecimal digits\<close>

definition digit_char :: "nat \<Rightarrow> char" where
  "digit_char d = ''0123456789abcdef'' ! d"

definition is_digit :: "char \<Rightarrow> bool" where
  "is_digit c = List.member ''0123456789'' c"

definition is_hex :: "char \<Rightarrow> bool" where
  "is_hex c = List.member ''0123456789abcdef'' c"

definition digit_val :: "char \<Rightarrow> nat" where
  "digit_val c = (if is_digit c then of_char c - 48 else of_char c - 87)"

fun show_nat :: "nat \<Rightarrow> string" where
  "show_nat n = (if n < 10 then [digit_char n] else show_nat (n div 10) @ [digit_char (n mod 10)])"

declare show_nat.simps [simp del]

definition read_nat :: "string \<Rightarrow> nat" where
  "read_nat ds = foldl (\<lambda>a c. 10 * a + digit_val c) 0 ds"

definition show_int :: "int \<Rightarrow> string" where
  "show_int i = (if i < 0 then CHR ''-'' # show_nat (nat (- i)) else show_nat (nat i))"

section \<open>JSON values and their text\<close>

text \<open>
  The values the store holds: what \<^verbatim>\<open>JSON.parse\<close> returns.  Numbers are
  the integers (fractions and exponents are outside the model).  An object is the list
  of its entries, read with \<^const>\<open>map_of\<close>; a JavaScript object has every key
  once.  \<^verbatim>\<open>undefined\<close> is not a JSON value: a result that may be
  undefined is a \<^typ>\<open>'a option\<close>.
\<close>

datatype json =
    JNull
  | JBool bool
  | JNum int
  | JStr string
  | JArr "json list"
  | JObj "(string \<times> json) list"

text \<open>
  \<^verbatim>\<open>stringify\<close> (json-stringify-safe, which on a value without cycles is
  \<^verbatim>\<open>JSON.stringify\<close>): compact text, strings quoted with the escapes
  \<^verbatim>\<open>JSON.stringify\<close> writes.
\<close>

definition escape_char :: "char \<Rightarrow> string" where
  "escape_char c =
     (if c = dquote then [backslash, dquote]
      else if c = backslash then [backslash, backslash]
      else if c = CHR 0x08 then [backslash, CHR ''b'']
      else if c = CHR 0x0C then [backslash, CHR ''f'']
      else if c = CHR 0x0A then [backslash, CHR ''n'']
      else if c = CHR 0x0D then [backslash, CHR ''r'']
      else if c = CHR 0x09 then [backslash, CHR ''t'']
      else if of_char c < (32::nat) then
        [backslash, CHR ''u'', CHR ''0'', CHR ''0'',
         digit_char (of_char c div 16), digit_char (of_char c mod 16)]
      else [c])"

definition quote :: "string \<Rightarrow> string" where
  "quote s = dquote # concat (map escape_char s) @ [dquote]"

primrec stringify :: "json \<Rightarrow> string" where
  "stringify JNull = ''null''"
| "stringify (JBool b) = (if b then ''true'' else ''false'')"
| "stringify (JNum i) = show_int i"
| "stringify (JStr s) = quote s"
| "stringify (JArr xs) = ''['' @ join '','' (map stringify xs) @ '']''"
| "stringify (JObj kvs) =
     ''{'' @ join '','' (map (\<lambda>(k, t). quote k @ '':'' @ t) (map (map_prod id stringify) kvs)) @ ''}''"

text \<open>
  \<^verbatim>\<open>JSON.parse\<close>, for the compact texts above; \<open>None\<close> is its
  SyntaxError.  \<open>read_string\<close> reads a string's characters after the opening quote,
  up to the closing one.  The natural number is fuel: one unit for each level of nesting
  and each element, of which a text has no more than it has characters.
\<close>

definition unescape :: "char \<Rightarrow> char option" where
  "unescape e =
     (if e = dquote then Some dquote
      else if e = backslash then Some backslash
      else if e = CHR ''/'' then Some (CHR ''/'')
      else if e = CHR ''b'' then Some (CHR 0x08)
      else if e = CHR ''f'' then Some (CHR 0x0C)
      else if e = CHR ''n'' then Some (CHR 0x0A)
      else if e = CHR ''r'' then Some (CHR 0x0D)
      else if e = CHR ''t'' then Some (CHR 0x09)
      else None)"

fun read_string :: "string \<Rightarrow> (string \<times> string) option" where
  "read_string [] = None"
| "read_string (c # cs) =
     (if c = dquote then Some ([], cs)
      else if c = backslash then
        (case cs of
           [] \<Rightarrow> None
         | e # r \<Rightarrow>
             if e = CHR ''u'' then
               (case r of
                  a # b # h # l # r' \<Rightarrow>
                    if a = CHR ''0'' \<and> b = CHR ''0'' \<and> is_hex h \<and> is_hex l
                    then map_option (apfst (Cons (char_of (16 * digit_val h + digit_val l))))
                           (read_string r')
                    else None
                | _ \<Rightarrow> None)
             else
               (case unescape e of
                  None \<Rightarrow> None
                | Some d \<Rightarrow> map_option (apfst (Cons d)) (read_string r)))
      else map_option (apfst (Cons c)) (read_string cs))"

fun read_value :: "nat \<Rightarrow> string \<Rightarrow> (json \<times> string) option"
  and read_elems :: "nat \<Rightarrow> string \<Rightarrow> (json list \<times> string) option"
  and read_members :: "nat \<Rightarrow> string \<Rightarrow> ((string \<times> json) list \<times> string) option"
where
  "read_value 0 s = None"
| "read_value (Suc n) s =
     (case s of
        [] \<Rightarrow> None
      | c # cs \<Rightarrow>
          if c = CHR ''n'' then (if take 3 cs = ''ull'' then Some (JNull, drop 3 cs) else None)
          else if c = CHR ''t'' then
            (if take 3 cs = ''rue'' then Some (JBool True, drop 3 cs) else None)
          else if c = CHR ''f'' then
            (if take 4 cs = ''alse'' then Some (JBool False, drop 4 cs) else None)
          else if c = dquote then map_option (apfst JStr) (read_string cs)
          else if c = CHR ''['' then
            (case cs of
               [] \<Rightarrow> None
             | d # r \<Rightarrow>
                 if d = CHR '']'' then Some (JArr [], r)
                 else map_option (apfst JArr) (read_elems n cs))
          else if c = CHR ''{'' then
            (case cs of
               [] \<Rightarrow> None
             | d # r \<Rightarrow>
                 if d = CHR ''}'' then Some (JObj [], r)
                 else map_option (apfst JObj) (read_members n cs))
          else if c = CHR ''-'' then
            (if takeWhile is_digit cs = [] then None
             else Some (JNum (- int (read_nat (takeWhile is_digit cs))), dropWhile is_digit cs))
          else if is_digit c then
            Some (JNum (int (read_nat (takeWhile is_digit s))), dropWhile is_digit s)
          else None)"
| "read_elems 0 s = None"
| "read_elems (Suc n) s =
     (case read_value n s of
        None \<Rightarrow> None
      | Some (v, r) \<Rightarrow>
          (case r of
             [] \<Rightarrow> None
           | d # r' \<Rightarrow>
               if d = CHR '','' then map_option (apfst (Cons v)) (read_elems n r')
               else if d = CHR '']'' then Some ([v], r')
               else None))"
| "read_members 0 s = None"
| "read_members (Suc n) s =
     (case s of
        [] \<Rightarrow> None
      | q # s1 \<Rightarrow>
          if q = dquote then
            (case read_string s1 of
               None \<Rightarrow> None
             | Some (k, s2) \<Rightarrow>
                 (case s2 of
                    [] \<Rightarrow> None
                  | col # s3 \<Rightarrow>
                      if col = CHR '':'' then
                        (case read_value n s3 of
                           None \<Rightarrow> None
                         | Some (v, r) \<Rightarrow>
                             (case r of
                                [] \<Rightarrow> None
                              | d # r' \<Rightarrow>
                                  if d = CHR '','' then
                                    map_option (apfst (Cons (k, v))) (read_members n r')
                                  else if d = CHR ''}'' then Some ([(k, v)], r')
                                  else None))
                      else None))
          else None)"

definition JSON_parse :: "string \<Rightarrow> json option" where
  "JSON_parse s =
     (case read_value (Suc (length s)) s of
        Some (v, []) \<Rightarrow> Some v
      | _ \<Rightarrow> None)"

section \<open>The server-side scripts\<close>

text \<open>
  The values of the scripts.  A Lua table has an array part (the values at the keys
  1, 2, ...) and a hash part (here: the values at string keys).  \<open>LNull\<close> is
  \<^verbatim>\<open>cjson.null\<close>; Lua's \<^verbatim>\<open>nil\<close> is the absence of a value.
\<close>

datatype lua =
    LNull
  | LBool bool
  | LNum int
  | LStr string
  | LTable "lua list" "(string \<times> lua) list"

datatype error =
    NotConnectedError
  | VerificationError
  | BackendError
  | CodecError
  | SyntaxError

text \<open>
  The errors of the source are plain \<^verbatim>\<open>Error\<close> objects:
  \<open>NotConnectedError\<close> is \<^verbatim>\<open>new Error('ValkeyContext not connected')\<close>,
  \<open>VerificationError\<close> is \<^verbatim>\<open>new Error('Redis connection verification failed')\<close>,
  \<open>BackendError\<close> is a rejection by the client (the connection, a command, or a
  script that raised), \<open>CodecError\<close> is the rejection of \<^verbatim>\<open>gunzip\<close>,
  \<open>SyntaxError\<close> is thrown by \<^verbatim>\<open>JSON.parse\<close>.
\<close>

text \<open>
  \<^verbatim>\<open>cjson.decode\<close> reads the same text as \<^verbatim>\<open>JSON.parse\<close>
  and builds tables: an array becomes a table with an array part, an object one with a
  hash part.  \<^verbatim>\<open>cjson.encode\<close> writes a table with string keys as an
  object (the array part under the keys "1", "2", ...), a table with an array part only
  as an array, and the empty table as the empty object.
\<close>

primrec lua_of_json :: "json \<Rightarrow> lua" where
  "lua_of_json JNull = LNull"
| "lua_of_json (JBool b) = LBool b"
| "lua_of_json (JNum i) = LNum i"
| "lua_of_json (JStr s) = LStr s"
| "lua_of_json (JArr xs) = LTable (map lua_of_json xs) []"
| "lua_of_json (JObj kvs) = LTable [] (map (map_prod id lua_of_json) kvs)"

primrec json_of_lua :: "lua \<Rightarrow> json" where
  "json_of_lua LNull = JNull"
| "json_of_lua (LBool b) = JBool b"
| "json_of_lua (LNum i) = JNum i"
| "json_of_lua (LStr s) = JStr s"
| "json_of_lua (LTable arr hash) =
     (if hash = [] then (if arr = [] then JObj [] else JArr (map json_of_lua arr))
      else JObj (map (map_prod id json_of_lua) hash
                 @ zip (map show_nat [1..<Suc (length arr)]) (map json_of_lua arr)))"

definition cjson_decode :: "string \<Rightarrow> error + lua" where
  "cjson_decode s = (case JSON_parse s of None \<Rightarrow> Inl BackendError | Some j \<Rightarrow> Inr (lua_of_json j))"

definition cjson_encode :: "lua \<Rightarrow> string" where
  "cjson_encode t = stringify (json_of_lua t)"

text \<open>
  \<^verbatim>\<open>type(x) == "table"\<close>, \<^verbatim>\<open>current[part]\<close>,
  \<^verbatim>\<open>current[part] = x\<close> and \<^verbatim>\<open>current[part] = nil\<close> for a
  string \<open>part\<close>.  Indexing a number, a boolean or \<^verbatim>\<open>cjson.null\<close>
  raises; indexing a string looks into the string library and never yields a table, which
  is all the scripts ask of the result; assigning into anything but a table raises.
\<close>

fun is_table :: "lua option \<Rightarrow> bool" where
  "is_table (Some (LTable arr hash)) = True"
| "is_table _ = False"

fun lua_index :: "lua \<Rightarrow> string \<Rightarrow> error + lua option" where
  "lua_index (LTable arr hash) part = Inr (map_of hash part)"
| "lua_index (LStr s) part = Inr None"
| "lua_index _ part = Inl BackendError"

fun lua_assign :: "lua \<Rightarrow> string \<Rightarrow> lua \<Rightarrow> error + lua" where
  "lua_assign (LTable arr hash) part x = Inr (LTable arr (AList.update part x hash))"
| "lua_assign _ part x = Inl BackendError"

fun lua_remove :: "lua \<Rightarrow> string \<Rightarrow> error + lua" where
  "lua_remove (LTable arr hash) part = Inr (LTable arr (AList.delete part hash))"
| "lua_remove _ part = Inl BackendError"

text \<open>
  The loop and the final assignment of \<^verbatim>\<open>setNestedScript\<close>, on the value
  \<open>current\<close> points to.  The script walks by reference and writes in place; here each
  step returns the table it has changed (the tables \<^verbatim>\<open>cjson.decode\<close>
  builds share nothing, so a write through \<open>current\<close> changes the document along
  the parts walked and nowhere else).  With no part left,
  \<^verbatim>\<open>parts[#parts]\<close> is nil and the assignment raises (table index is nil).
\<close>

fun set_nested :: "lua \<Rightarrow> string list \<Rightarrow> lua \<Rightarrow> error + lua" where
  "set_nested current [] decodedValue = Inl BackendError"
| "set_nested current [finalKey] decodedValue = lua_assign current finalKey decodedValue"
| "set_nested current (part # rest) decodedValue =
     (case lua_index current part of
        Inl e \<Rightarrow> Inl e
      | Inr child \<Rightarrow>
          (case (if is_table child then Inr current else lua_assign current part (LTable [] [])) of
             Inl e \<Rightarrow> Inl e
           | Inr current' \<Rightarrow>
               (case lua_index current' part of
                  Inl e \<Rightarrow> Inl e
                | Inr None \<Rightarrow> Inl BackendError
                | Inr (Some next) \<Rightarrow>
                    (case set_nested next rest decodedValue of
                       Inl e \<Rightarrow> Inl e
                     | Inr next' \<Rightarrow> lua_assign current' part next'))))"

text \<open>
  The loop and the final assignment of \<^verbatim>\<open>deleteNestedScript\<close>:
  \<open>Inr None\<close> is the early \<^verbatim>\<open>return 0\<close>, \<open>Inr (Some t)\<close> the table
  after \<^verbatim>\<open>current[finalKey] = nil\<close>.
\<close>

fun delete_nested :: "lua \<Rightarrow> string list \<Rightarrow> error + lua option" where
  "delete_nested current [] = Inl BackendError"
| "delete_nested current [finalKey] =
     (case lua_remove current finalKey of Inl e \<Rightarrow> Inl e | Inr t \<Rightarrow> Inr (Some t))"
| "delete_nested current (part # rest) =
     (case lua_index current part of
        Inl e \<Rightarrow> Inl e
      | Inr child \<Rightarrow>
          (case child of
             Some (LTable arr hash) \<Rightarrow>
               (case delete_nested (LTable arr hash) rest of
                  Inl e \<Rightarrow> Inl e
                | Inr None \<Rightarrow> Inr None
                | Inr (Some next') \<Rightarrow>
                    (case lua_assign current part next' of Inl e \<Rightarrow> Inl e | Inr t \<Rightarrow> Inr (Some t)))
           | _ \<Rightarrow> Inr None))"

text \<open>
  The backend's key space: the keys with their values, in the order of their first write.
  A script returns its reply and the key space it leaves; a script that raises has
  written nothing, since its only write is its last statement.
\<close>

type_synonym keyspace = "(string \<times> string) list"

definition setNestedScript :: "keyspace \<Rightarrow> string \<Rightarrow> string \<Rightarrow> string \<Rightarrow> error + int \<times> keyspace" where
  "setNestedScript d key path val =
     (case (case map_of d key of None \<Rightarrow> Inr (LTable [] []) | Some existing \<Rightarrow> cjson_decode existing) of
        Inl e \<Rightarrow> Inl e
      | Inr data \<Rightarrow>
          (case cjson_decode val of
             Inl e \<Rightarrow> Inl e
           | Inr decodedValue \<Rightarrow>
               (case set_nested data (gmatch_parts path) decodedValue of
                  Inl e \<Rightarrow> Inl e
                | Inr data' \<Rightarrow> Inr (1, AList.update key (cjson_encode data') d))))"

definition deleteNestedScript :: "keyspace \<Rightarrow> string \<Rightarrow> string \<Rightarrow> error + int \<times> keyspace" where
  "deleteNestedScript d key path =
     (case map_of d key of
        None \<Rightarrow> Inr (0, d)
      | Some existing \<Rightarrow>
          (case cjson_decode existing of
             Inl e \<Rightarrow> Inl e
           | Inr data \<Rightarrow>
               (case delete_nested data (gmatch_parts path) of
                  Inl e \<Rightarrow> Inl e
                | Inr None \<Rightarrow> Inr (0, d)
                | Inr (Some data') \<Rightarrow> Inr (1, AList.update key (cjson_encode data') d))))"

section \<open>The backend and the client\<close>

text \<open>
  The pattern match of the backend's \<^verbatim>\<open>KEYS\<close> command
  (\<^verbatim>\<open>stringmatchlen\<close>): \<^verbatim>\<open>*\<close>, \<^verbatim>\<open>?\<close>,
  character classes and the backslash, character by character.
  \<open>glob_class c ps\<close> scans a class for the character \<open>c\<close> and returns
  whether it is there and the pattern after the class.  A pattern that is used up matches
  the empty rest only; a rest that is used up is matched by stars only.
\<close>

fun glob_class :: "char \<Rightarrow> string \<Rightarrow> bool \<times> string" where
  "glob_class c [] = (False, [])"
| "glob_class c (p # ps) =
     (if p = backslash \<and> ps \<noteq> [] then
        (case glob_class c (tl ps) of (m, r) \<Rightarrow> (hd ps = c \<or> m, r))
      else if p = CHR '']'' then (False, ps)
      else
        (case ps of
           d # e # ps' \<Rightarrow>
             if d = CHR ''-'' then
               (case glob_class c ps' of
                  (m, r) \<Rightarrow>
                    ((min (of_char p) (of_char e) \<le> (of_char c :: nat)
                      \<and> (of_char c :: nat) \<le> max (of_char p) (of_char e)) \<or> m, r))
             else (case glob_class c ps of (m, r) \<Rightarrow> (p = c \<or> m, r))
         | _ \<Rightarrow> (case glob_class c ps of (m, r) \<Rightarrow> (p = c \<or> m, r))))"

definition only_stars :: "string \<Rightarrow> bool" where
  "only_stars ps = (dropWhile (\<lambda>x. x = CHR ''*'') ps = [])"

function glob :: "string \<Rightarrow> string \<Rightarrow> bool" where
  "glob [] s = (s = [])"
| "glob (p # ps) [] = False"
| "glob (p # ps) (c # cs) =
     (if p = CHR ''*'' then
        (if only_stars ps then True
         else (glob (dropWhile (\<lambda>x. x = CHR ''*'') ps) (c # cs)
               \<or> glob (CHR ''*'' # dropWhile (\<lambda>x. x = CHR ''*'') ps) cs))
      else if p = CHR ''?'' then (if cs = [] then only_stars ps else glob ps cs)
      else if p = CHR ''['' then
        (case glob_class c (if ps \<noteq> [] \<and> hd ps = CHR ''^'' then tl ps else ps) of
           (m, r) \<Rightarrow>
             if m = (ps \<noteq> [] \<and> hd ps = CHR ''^'') then False
             else if cs = [] then only_stars r
             else glob r cs)
      else if p = backslash \<and> ps \<noteq> [] then
        (if hd ps = c then (if cs = [] then only_stars (tl ps) else glob (tl ps) cs) else False)
      else
        (if p = c then (if cs = [] then only_stars ps else glob ps cs) else False))"
  by pat_completeness auto


termination glob
proof -
  have glob_class_length: "length (snd (glob_class c ps)) \<le> length ps" for c ps
    proof (induction c ps rule: glob_class.induct)
      case (1 c)
      show ?case by simp
    next
      case (2 c p ps)
      show ?case
      proof (cases "p = backslash \<and> ps \<noteq> []")
        case True
        with 2(1) have "length (snd (glob_class c (tl ps))) \<le> length (tl ps)" by simp
        with True show ?thesis by (simp add: split_beta)
      next
        case nb: False
        show ?thesis
        proof (cases "p = CHR '']''")
          case True
          with nb show ?thesis by auto
        next
          case nc: False
          show ?thesis
          proof (cases ps)
            case Nil
            with nb nc show ?thesis by simp
          next
            case (Cons d qs)
            show ?thesis
            proof (cases qs)
              case Nil
              have "length (snd (glob_class c ps)) \<le> length ps"
                using 2(3)[OF nb nc Cons Nil] .
              with Cons Nil nb nc show ?thesis by (simp add: split_beta)
            next
              case qs: (Cons e ps')
              show ?thesis
              proof (cases "d = CHR ''-''")
                case True
                have "length (snd (glob_class c ps')) \<le> length ps'"
                  using 2(4)[OF nb nc Cons qs True] .
                with True Cons qs nb nc show ?thesis by (simp add: split_beta)
              next
                case False
                have "length (snd (glob_class c ps)) \<le> length ps"
                  using 2(5)[OF nb nc Cons qs False] .
                with False Cons qs nb nc show ?thesis by (simp add: split_beta)
              qed
            qed
          qed
        qed
      qed
    qed
  show ?thesis
  proof (relation "measure (\<lambda>(p, s). length p + length s)", goal_cases)
    case 1
    show ?case by simp
  next
    case (2 p ps c cs)
    show ?case using length_dropWhile_le[of "\<lambda>x. x = CHR ''*''" ps] by simp
  next
    case (3 p ps c cs)
    show ?case using length_dropWhile_le[of "\<lambda>x. x = CHR ''*''" ps] by simp
  next
    case (4 p ps c cs)
    show ?case by simp
  next
    case (5 p ps c cs x y)
    have "y = snd (glob_class c (if ps \<noteq> [] \<and> hd ps = CHR ''^'' then tl ps else ps))"
      using 5 by (metis snd_conv)
    then have "length y \<le> length ps"
      using glob_class_length[of c ps] glob_class_length[of c "tl ps"]
      by (auto split: if_splits)
    then show ?case by simp
  next
    case (6 p ps c cs)
    then show ?case by (cases ps) auto
  next
    case (7 p ps c cs)
    show ?case by simp
  qed
qed

text \<open>
  What the store hands to its client: the commands, and for \<^verbatim>\<open>EVAL\<close> the
  script with its arguments after the key.
\<close>

datatype script =
    SetNested string string
  | DeleteNested string

datatype command =
    CONNECT
  | PING
  | SCRIPT_LOAD
  | QUIT
  | GET string
  | SET string string
  | EVAL script string
  | KEYS string
  | DEL "string list"

text \<open>
  The client object's connection.  \<^verbatim>\<open>new Redis({lazyConnect: true})\<close> makes
  a client that is \<open>Down\<close>; a successful \<^verbatim>\<open>connect()\<close> brings it
  \<open>Up\<close>.
\<close>

datatype link = Up | Down

text \<open>
  The state: the fields of \<^verbatim>\<open>ValkeyContext\<close> (\<open>client\<close> is
  \<open>None\<close> for \<^verbatim>\<open>null\<close>), the key space of the backend, and the
  commands handed to a client so far, oldest first.  The client hands keys to the backend
  as it is given them (its own option of prefixing keys is not modelled).
\<close>

record store =
  client :: "link option"
  keyPrefix :: string
  compressionEnabled :: bool
  db :: keyspace
  calls :: "command list"

text \<open>
  What the outside answers while the store opens and closes: whether
  \<^verbatim>\<open>connect()\<close> resolves, the reply to \<^verbatim>\<open>ping()\<close>
  (\<open>None\<close> when it rejects), whether each \<^verbatim>\<open>script('LOAD', ...)\<close>
  and \<^verbatim>\<open>quit()\<close> resolves.
\<close>

record answers =
  connects :: bool
  pong :: "string option"
  loads_set :: bool
  loads_delete :: bool
  quits :: bool

text \<open>
  \<^verbatim>\<open>gzip\<close> followed by \<^verbatim>\<open>toString('base64')\<close>, and
  \<^verbatim>\<open>Buffer.from(..., 'base64')\<close> followed by \<^verbatim>\<open>gunzip\<close>
  (\<open>None\<close> when it rejects).  zlib is not part of this program: the two functions
  are parameters.
\<close>

record zlib =
  gzip_base64 :: "string \<Rightarrow> string"
  gunzip_base64 :: "string \<Rightarrow> string option"

definition COMPRESSION_THRESHOLD :: nat where
  "COMPRESSION_THRESHOLD = 1024"

definition COMPRESSION_PREFIX :: string where
  "COMPRESSION_PREFIX = ''gzip:''"

subsection \<open>The client's commands\<close>

text \<open>
  A command handed to a client is recorded.  On a client that is \<open>Up\<close> it runs on
  the key space; on one that is \<open>Down\<close> it is rejected.
\<close>

definition send :: "command \<Rightarrow> store \<Rightarrow> store" where
  "send c st = st\<lparr>calls := calls st @ [c]\<rparr>"

definition client_get :: "string \<Rightarrow> store \<Rightarrow> (error + string option) \<times> store" where
  "client_get k st =
     (if client st = Some Up then (Inr (map_of (db st) k), send (GET k) st)
      else (Inl BackendError, send (GET k) st))"

definition client_set :: "string \<Rightarrow> string \<Rightarrow> store \<Rightarrow> (error + unit) \<times> store" where
  "client_set k v st =
     (if client st = Some Up then (Inr (), send (SET k v) (st\<lparr>db := AList.update k v (db st)\<rparr>))
      else (Inl BackendError, send (SET k v) st))"

definition run_script :: "script \<Rightarrow> keyspace \<Rightarrow> string \<Rightarrow> error + int \<times> keyspace" where
  "run_script sc d k =
     (case sc of
        SetNested path val \<Rightarrow> setNestedScript d k path val
      | DeleteNested path \<Rightarrow> deleteNestedScript d k path)"

definition client_eval :: "script \<Rightarrow> string \<Rightarrow> store \<Rightarrow> (error + int) \<times> store" where
  "client_eval sc k st =
     (if client st = Some Up then
        (case run_script sc (db st) k of
           Inl e \<Rightarrow> (Inl e, send (EVAL sc k) st)
         | Inr (reply, d') \<Rightarrow> (Inr reply, send (EVAL sc k) (st\<lparr>db := d'\<rparr>)))
      else (Inl BackendError, send (EVAL sc k) st))"

definition client_keys :: "string \<Rightarrow> store \<Rightarrow> (error + string list) \<times> store" where
  "client_keys pattern st =
     (if client st = Some Up then (Inr (filter (glob pattern) (map fst (db st))), send (KEYS pattern) st)
      else (Inl BackendError, send (KEYS pattern) st))"

definition client_del :: "string list \<Rightarrow> store \<Rightarrow> (error + unit) \<times> store" where
  "client_del ks st =
     (if client st = Some Up then
        (Inr (), send (DEL ks) (st\<lparr>db := filter (\<lambda>kv. fst kv \<notin> set ks) (db st)\<rparr>))
      else (Inl BackendError, send (DEL ks) st))"

section \<open>The context store\<close>

text \<open>
  The constructor: \<^verbatim>\<open>config.keyPrefix || 'nodered:'\<close> (an absent or empty
  prefix gives the default), made to end with a colon;
  \<^verbatim>\<open>config.enableCompression || false\<close>.
\<close>

record config =
  cfg_keyPrefix :: "string option"
  cfg_enableCompression :: "bool option"

definition normalize_prefix :: "string option \<Rightarrow> string" where
  "normalize_prefix p =
     (let q = (case p of None \<Rightarrow> ''nodered:'' | Some x \<Rightarrow> if x = [] then ''nodered:'' else x)
      in if endsWith q '':'' then q else q @ '':'')"

definition constructor :: "config \<Rightarrow> keyspace \<Rightarrow> store" where
  "constructor c d =
     \<lparr>client = None,
      keyPrefix = normalize_prefix (cfg_keyPrefix c),
      compressionEnabled = (case cfg_enableCompression c of None \<Rightarrow> False | Some b \<Rightarrow> b),
      db = d,
      calls = []\<rparr>"

record PropertyPath =
  parts :: "string list"
  isNested :: bool

definition parsePath :: "string \<Rightarrow> PropertyPath" where
  "parsePath key = \<lparr>parts = split (CHR ''.'') key, isNested = 1 < length (split (CHR ''.'') key)\<rparr>"

definition buildKey :: "store \<Rightarrow> string \<Rightarrow> string \<Rightarrow> string" where
  "buildKey st scope key = keyPrefix st @ ''context:'' @ scope @ '':'' @ key"

definition decompressIfNeeded :: "zlib \<Rightarrow> string \<Rightarrow> error + string" where
  "decompressIfNeeded z val =
     (if startsWith val COMPRESSION_PREFIX then
        (case gunzip_base64 z (drop (length COMPRESSION_PREFIX) val) of
           None \<Rightarrow> Inl CodecError
         | Some decompressed \<Rightarrow> Inr decompressed)
      else Inr val)"

text \<open>
  \<^verbatim>\<open>value[part]\<close> on a parsed value: an entry of an object, an element or the
  length of an array, a character or the length of a string; \<open>None\<close> is
  \<^verbatim>\<open>undefined\<close>.  An index is the decimal text of a number below the length.
  The members every JavaScript value inherits from its prototype are not values of the
  store and are outside the model.
\<close>

definition array_index :: "string \<Rightarrow> nat \<Rightarrow> nat option" where
  "array_index p len = List.find (\<lambda>i. show_nat i = p) [0..<len]"

fun js_index :: "json \<Rightarrow> string \<Rightarrow> json option" where
  "js_index (JObj kvs) p = map_of kvs p"
| "js_index (JArr xs) p =
     (if p = ''length'' then Some (JNum (int (length xs)))
      else map_option (\<lambda>i. xs ! i) (array_index p (length xs)))"
| "js_index (JStr s) p =
     (if p = ''length'' then Some (JNum (int (length s)))
      else map_option (\<lambda>i. JStr [s ! i]) (array_index p (length s)))"
| "js_index _ p = None"

text \<open>
  The loop of \<^verbatim>\<open>getSingleValue\<close> over the parts after the first: it stops
  with \<^verbatim>\<open>undefined\<close> at a value that is null or undefined.
\<close>

fun navigate :: "json option \<Rightarrow> string list \<Rightarrow> json option" where
  "navigate v [] = v"
| "navigate None (p # ps) = None"
| "navigate (Some JNull) (p # ps) = None"
| "navigate (Some v) (p # ps) = navigate (js_index v p) ps"

definition getSingleValue :: "zlib \<Rightarrow> string \<Rightarrow> string \<Rightarrow> store \<Rightarrow> (error + json option) \<times> store" where
  "getSingleValue z scope key st =
     (let path = parsePath key;
          redisKey = buildKey st scope (hd (parts path))
      in case client_get redisKey st of
           (Inl e, st') \<Rightarrow> (Inl e, st')
         | (Inr None, st') \<Rightarrow> (Inr None, st')
         | (Inr (Some rawValue), st') \<Rightarrow>
             (case decompressIfNeeded z rawValue of
                Inl e \<Rightarrow> (Inl e, st')
              | Inr text \<Rightarrow>
                  (case JSON_parse text of
                     None \<Rightarrow> (Inl SyntaxError, st')
                   | Some v \<Rightarrow>
                       (Inr (if isNested path then navigate (Some v) (tl (parts path)) else Some v),
                        st'))))"

definition setSingleValue :: "zlib \<Rightarrow> string \<Rightarrow> string \<Rightarrow> json \<Rightarrow> store \<Rightarrow> (error + unit) \<times> store" where
  "setSingleValue z scope key v st =
     (let path = parsePath key;
          redisKey = buildKey st scope (hd (parts path));
          serialized = stringify v
      in if isNested path then
           (case client_eval (SetNested (join ''.'' (tl (parts path))) serialized) redisKey st of
              (Inl e, st') \<Rightarrow> (Inl e, st')
            | (Inr reply, st') \<Rightarrow> (Inr (), st'))
         else
           client_set redisKey
             (if compressionEnabled st \<and> COMPRESSION_THRESHOLD < length serialized
              then COMPRESSION_PREFIX @ gzip_base64 z serialized
              else serialized)
             st)"

subsection \<open>The public operations\<close>

text \<open>
  Each returns its outcome and the state it leaves: \<open>Inl\<close> is the error given to
  the callback or the rejection of the promise, \<open>Inr\<close> the success.
  \<^verbatim>\<open>open\<close> is \<open>open_store\<close> and \<^verbatim>\<open>set\<close> is
  \<open>set_value\<close> here; the others keep their names.  \<^verbatim>\<open>get\<close> with
  an array of keys starts all the reads before it looks at any result, so every read is
  handed to the client; it fails when one of them fails.
\<close>

definition open_store :: "answers \<Rightarrow> store \<Rightarrow> (error + unit) \<times> store" where
  "open_store a st =
     (let st1 = send CONNECT (st\<lparr>client := Some Down\<rparr>) in
      if connects a then
        (let st2 = send PING (st1\<lparr>client := Some Up\<rparr>) in
         case pong a of
           None \<Rightarrow> (Inl BackendError, st2)
         | Some reply \<Rightarrow>
             if reply = ''PONG'' then
               (let st3 = send SCRIPT_LOAD st2 in
                if loads_set a then
                  (let st4 = send SCRIPT_LOAD st3 in
                   if loads_delete a then (Inr (), st4) else (Inl BackendError, st4))
                else (Inl BackendError, st3))
             else (Inl VerificationError, st2))
      else (Inl BackendError, st1))"

definition close :: "answers \<Rightarrow> store \<Rightarrow> (error + unit) \<times> store" where
  "close a st =
     (case client st of
        None \<Rightarrow> (Inr (), st)
      | Some l \<Rightarrow>
          if quits a then (Inr (), (send QUIT st)\<lparr>client := None\<rparr>)
          else (Inl BackendError, send QUIT st))"

datatype key_arg = Single string | Multi "string list"

datatype get_result = Value "json option" | Values "json option list"

fun getAll :: "zlib \<Rightarrow> string \<Rightarrow> string list \<Rightarrow> store \<Rightarrow> (error + json option list) \<times> store" where
  "getAll z scope [] st = (Inr [], st)"
| "getAll z scope (k # ks) st =
     (case getSingleValue z scope k st of
        (r, st1) \<Rightarrow>
          (case getAll z scope ks st1 of
             (rs, st2) \<Rightarrow>
               ((case r of
                   Inl e \<Rightarrow> Inl e
                 | Inr v \<Rightarrow> (case rs of Inl e \<Rightarrow> Inl e | Inr vs \<Rightarrow> Inr (v # vs))),
                st2)))"

definition get :: "zlib \<Rightarrow> string \<Rightarrow> key_arg \<Rightarrow> store \<Rightarrow> (error + get_result) \<times> store" where
  "get z scope key st =
     (if client st = None then (Inl NotConnectedError, st)
      else
        (case key of
           Multi ks \<Rightarrow>
             (case getAll z scope ks st of
                (Inl e, st') \<Rightarrow> (Inl e, st')
              | (Inr vs, st') \<Rightarrow> (Inr (Values vs), st'))
         | Single k \<Rightarrow>
             (case getSingleValue z scope k st of
                (Inl e, st') \<Rightarrow> (Inl e, st')
              | (Inr v, st') \<Rightarrow> (Inr (Value v), st'))))"

definition set_value :: "zlib \<Rightarrow> string \<Rightarrow> string \<Rightarrow> json \<Rightarrow> store \<Rightarrow> (error + unit) \<times> store" where
  "set_value z scope key v st =
     (if client st = None then (Inl NotConnectedError, st)
      else setSingleValue z scope key v st)"

definition keys :: "string \<Rightarrow> store \<Rightarrow> (error + string list) \<times> store" where
  "keys scope st =
     (if client st = None then (Inl NotConnectedError, st)
      else
        (case client_keys (buildKey st scope ''*'') st of
           (Inl e, st') \<Rightarrow> (Inl e, st')
         | (Inr redisKeys, st') \<Rightarrow>
             (Inr (map (\<lambda>k. drop (length (buildKey st scope [])) k) redisKeys), st')))"

definition delete :: "string \<Rightarrow> store \<Rightarrow> (error + unit) \<times> store" where
  "delete scope st =
     (if client st = None then (Inl NotConnectedError, st)
      else
        (case client_keys (buildKey st scope ''*'') st of
           (Inl e, st') \<Rightarrow> (Inl e, st')
         | (Inr ks, st') \<Rightarrow> if 0 < length ks then client_del ks st' else (Inr (), st')))"

text \<open>
  The test of \<^verbatim>\<open>clean\<close> on one scanned key: it has at least four parts
  between colons, the third from the end is \<^verbatim>\<open>node\<close>, and the second from
  the end, the node identity, is not among the active ones.
\<close>

definition inactive_node_key :: "string list \<Rightarrow> string \<Rightarrow> bool" where
  "inactive_node_key activeNodes key =
     (let ps = split (CHR '':'') key in
      4 \<le> length ps \<and> ps ! (length ps - 3) = ''node'' \<and> ps ! (length ps - 2) \<notin> set activeNodes)"

definition clean :: "string list \<Rightarrow> store \<Rightarrow> (error + unit) \<times> store" where
  "clean activeNodes st =
     (if client st = None then (Inl NotConnectedError, st)
      else
        (case client_keys (buildKey st ''node:*'' []) st of
           (Inl e, st') \<Rightarrow> (Inl e, st')
         | (Inr allNodeKeys, st') \<Rightarrow>
             (let keysToDelete = filter (inactive_node_key activeNodes) allNodeKeys
              in if 0 < length keysToDelete then client_del keysToDelete st' else (Inr (), st'))))"

section \<open>Sample configurations\<close>

text \<open>
  Concrete answers of the outside, configurations, a stand-in for zlib (it puts a
  four-character header before the text and rejects what lacks it) and a store that has
  been opened, for the instances below.
\<close>

definition all_ok :: answers where
  "all_ok = \<lparr>connects = True, pong = Some ''PONG'', loads_set = True, loads_delete = True, quits = True\<rparr>"

definition unreachable :: answers where
  "unreachable = \<lparr>connects = False, pong = None, loads_set = False, loads_delete = False, quits = False\<rparr>"

definition default_config :: config where
  "default_config = \<lparr>cfg_keyPrefix = None, cfg_enableCompression = None\<rparr>"

definition compressing :: config where
  "compressing = \<lparr>cfg_keyPrefix = None, cfg_enableCompression = Some True\<rparr>"


definition opened :: "config \<Rightarrow> keyspace \<Rightarrow> store" where
  "opened c d = snd (open_store all_ok (constructor c d))"

section \<open>What the claims speak of\<close>


text \<open>
  The nested assignment as the specification words it: at each segment but the last,
  take the container found there, or an empty one when what is there is not a container;
  assign the value at the last segment.  \<open>nested_assign\<close> is the table this gives,
  for a table and at least one segment.
\<close>

fun container_at :: "(string \<times> lua) list \<Rightarrow> string \<Rightarrow> lua" where
  "container_at hash k =
     (case map_of hash k of Some (LTable a h) \<Rightarrow> LTable a h | _ \<Rightarrow> LTable [] [])"

fun nested_assign :: "lua \<Rightarrow> string list \<Rightarrow> lua \<Rightarrow> lua" where
  "nested_assign (LTable arr hash) [k] v = LTable arr (AList.update k v hash)"
| "nested_assign (LTable arr hash) (k # ks) v =
     LTable arr (AList.update k (nested_assign (container_at hash k) ks v) hash)"
| "nested_assign t ks v = t"

text \<open>The value found in a table along a path of string keys.\<close>

fun lua_lookup :: "lua \<Rightarrow> string list \<Rightarrow> lua option" where
  "lua_lookup t [] = Some t"
| "lua_lookup (LTable arr hash) (k # ks) =
     (case map_of hash k of None \<Rightarrow> None | Some c \<Rightarrow> lua_lookup c ks)"
| "lua_lookup t (k # ks) = None"

text \<open>
  The nested deletion as the specification words it: \<open>reaches_parent\<close> says that
  every segment but the last leads to a container; \<open>nested_remove\<close> is the table
  without the entry of the last segment.
\<close>

fun reaches_parent :: "lua \<Rightarrow> string list \<Rightarrow> bool" where
  "reaches_parent (LTable arr hash) [k] = True"
| "reaches_parent (LTable arr hash) (k # ks) =
     (case map_of hash k of Some (LTable a h) \<Rightarrow> reaches_parent (LTable a h) ks | _ \<Rightarrow> False)"
| "reaches_parent t ks = False"

fun nested_remove :: "lua \<Rightarrow> string list \<Rightarrow> lua" where
  "nested_remove (LTable arr hash) [k] = LTable arr (AList.delete k hash)"
| "nested_remove (LTable arr hash) (k # ks) =
     (case map_of hash k of
        Some (LTable a h) \<Rightarrow> LTable arr (AList.update k (nested_remove (LTable a h) ks) hash)
      | _ \<Rightarrow> LTable arr hash)"
| "nested_remove t ks = t"


section \<open>Auxiliary notions for the proofs\<close>

definition no_digit_first :: "string \<Rightarrow> bool" where
  "no_digit_first rest = (takeWhile is_digit rest = [])"



section \<open>Reading back what was written\<close>















lemma no_digit_first_simps [simp]:
  "no_digit_first []" "no_digit_first (CHR '','' # r)" "no_digit_first (CHR '']'' # r)"
  "no_digit_first (CHR ''}'' # r)"
  by (simp_all add: no_digit_first_def is_digit_def)










section \<open>Basic facts about the operations\<close>

lemma split_not_Nil: "split sep s \<noteq> []"
  by (induction s) (auto split: list.splits)

lemma normalize_default: "normalize_prefix None = ''nodered:''"
  by (simp add: normalize_prefix_def endsWith_def)

lemma first_sep_unique:
  "c \<notin> set xs \<Longrightarrow> c \<notin> set ys \<Longrightarrow> xs @ c # a = ys @ c # b \<Longrightarrow> xs = ys \<and> a = b"
proof (induction xs arbitrary: ys)
  case Nil
  then show ?case by (cases ys) auto
next
  case (Cons x xs)
  then show ?case by (cases ys) auto
qed

lemma colon_split_unique:
  assumes "s1 @ CHR '':'' # k1 = s2 @ CHR '':'' # k2" "CHR '':'' \<notin> set k1" "CHR '':'' \<notin> set k2"
  shows "s1 = s2 \<and> k1 = k2"
proof -
  have "rev k1 @ CHR '':'' # rev s1 = rev k2 @ CHR '':'' # rev s2"
    using arg_cong[OF assms(1), of rev] by simp
  moreover have "CHR '':'' \<notin> set (rev k1)" "CHR '':'' \<notin> set (rev k2)" using assms by auto
  ultimately have "rev k1 = rev k2 \<and> rev s1 = rev s2"
    using first_sep_unique[of "CHR '':''" "rev k1" "rev k2" "rev s1" "rev s2"] by blast
  then show ?thesis by simp
qed

section \<open>The walks of the scripts\<close>

lemma container_at_table: "\<exists>a h. container_at hash k = LTable a h"
  by (auto split: option.splits lua.splits)


lemma lookup_nested_assign:
  "segs \<noteq> [] \<Longrightarrow> lua_lookup (nested_assign (LTable arr hash) segs v) segs = Some v"
proof (induction segs arbitrary: arr hash)
  case Nil
  then show ?case by simp
next
  case (Cons k rest)
  show ?case
  proof (cases rest)
    case Nil
    then show ?thesis by (simp add: update_conv')
  next
    case (Cons k' rest')
    obtain a h where c: "container_at hash k = LTable a h"
      using container_at_table by blast
    have "lua_lookup (nested_assign (LTable a h) rest v) rest = Some v"
      using Cons.IH Cons by simp
    with c Cons show ?thesis by (simp add: update_conv' del: container_at.simps)
  qed
qed

lemma delete_nested_table:
  "segs \<noteq> [] \<Longrightarrow> delete_nested (LTable arr hash) segs
     = Inr (if reaches_parent (LTable arr hash) segs
            then Some (nested_remove (LTable arr hash) segs) else None)"
proof (induction segs arbitrary: arr hash)
  case Nil
  then show ?case by simp
next
  case (Cons k rest)
  show ?case
  proof (cases rest)
    case Nil
    then show ?thesis by simp
  next
    case (Cons k' rest')
    show ?thesis
    proof (cases "map_of hash k")
      case None
      with Cons show ?thesis by simp
    next
      case (Some child)
      show ?thesis
      proof (cases child)
        case (LTable a h)
        have "delete_nested (LTable a h) rest
               = Inr (if reaches_parent (LTable a h) rest
                      then Some (nested_remove (LTable a h) rest) else None)"
          using Cons.IH Cons by simp
        with Some LTable Cons show ?thesis by simp
      qed (use Some Cons in simp_all)
    qed
  qed
qed

lemma lookup_nested_remove:
  "reaches_parent (LTable arr hash) segs \<Longrightarrow>
     lua_lookup (nested_remove (LTable arr hash) segs) segs = None"
proof (induction segs arbitrary: arr hash)
  case Nil
  then show ?case by simp
next
  case (Cons k rest)
  show ?case
  proof (cases rest)
    case Nil
    then show ?thesis by (simp add: delete_conv')
  next
    case (Cons k' rest')
    with Cons.prems obtain a h where m: "map_of hash k = Some (LTable a h)"
      and r: "reaches_parent (LTable a h) rest"
      by (auto split: option.splits lua.splits)
    have "lua_lookup (nested_remove (LTable a h) rest) rest = None"
      using Cons.IH r by simp
    with m Cons show ?thesis by (simp add: update_conv')
  qed
qed





lemma setNestedScript_error: "setNestedScript d key path val = Inl e \<Longrightarrow> e = BackendError"
proof -
  have "set_nested t segs v = Inl e \<Longrightarrow> e = BackendError" for t segs v
  proof (induction t segs v rule: set_nested.induct)
    case (1 current decodedValue)
    then show ?case by simp
  next
    case (2 current finalKey decodedValue)
    then show ?case by (cases current) auto
  next
    case (3 current part v va decodedValue)
    then show ?case
      by (cases current) (auto split: sum.splits option.splits if_splits lua.splits)
  qed
  then show "setNestedScript d key path val = Inl e \<Longrightarrow> e = BackendError"
    by (auto simp: setNestedScript_def cjson_decode_def split: option.splits sum.splits)
qed



section \<open>From the written document back to the value\<close>














lemma opened_simps:
  "client (opened c d) = Some Up" "db (opened c d) = d"
  "keyPrefix (opened c d) = normalize_prefix (cfg_keyPrefix c)"
  "compressionEnabled (opened c d) = (case cfg_enableCompression c of None \<Rightarrow> False | Some b \<Rightarrow> b)"
  "calls (opened c d) = [CONNECT, PING, SCRIPT_LOAD, SCRIPT_LOAD]"
  by (simp_all add: opened_def open_store_def all_ok_def constructor_def send_def Let_def)


lemma quote_plain:
  "escape_char c = [c] \<Longrightarrow> quote (replicate n c) = dquote # replicate n c @ [dquote]"
  by (induction n) (simp_all add: quote_def)

section \<open>Reading, cleaning and the closed store\<close>









lemma split_single: "split c s = [a] \<Longrightarrow> a = s"
proof (induction s arbitrary: a)
  case Nil
  then show ?case by simp
next
  case (Cons x s)
  obtain p ps where sp: "split c s = p # ps"
    using split_not_Nil[of c s] by (cases "split c s") auto
  with Cons.prems have "x \<noteq> c" "ps = []" "a = x # p" by (auto split: if_splits)
  with Cons.IH[of p] sp show ?case by simp
qed

lemma flat_set_stores:
  assumes "client st = Some Up" and "\<not> isNested (parsePath key)"
  shows "set_value z scope key v st
           = (Inr (), send (SET (buildKey st scope key)
                            (if compressionEnabled st \<and> 1024 < length (stringify v)
                             then ''gzip:'' @ gzip_base64 z (stringify v) else stringify v))
                       (st\<lparr>db := AList.update (buildKey st scope key)
                            (if compressionEnabled st \<and> 1024 < length (stringify v)
                             then ''gzip:'' @ gzip_base64 z (stringify v) else stringify v)
                            (db st)\<rparr>))"
proof -
  have "split (CHR ''.'') key = [key]"
  proof (cases "split (CHR ''.'') key")
    case Nil
    then show ?thesis using split_not_Nil[of "CHR ''.''" key] by simp
  next
    case (Cons a rest)
    with assms(2) have "rest = []" by (simp add: parsePath_def)
    with Cons split_single[of "CHR ''.''" key a] show ?thesis by simp
  qed
  then show ?thesis
    using assms
    by (simp add: set_value_def setSingleValue_def client_set_def Let_def parsePath_def
        COMPRESSION_THRESHOLD_def COMPRESSION_PREFIX_def)
qed

lemma not_connected_rejects:
  assumes "client st = None"
  shows "get z scope key st = (Inl NotConnectedError, st)"
    and "set_value z scope k v st = (Inl NotConnectedError, st)"
    and "keys scope st = (Inl NotConnectedError, st)"
    and "delete scope st = (Inl NotConnectedError, st)"
    and "clean active st = (Inl NotConnectedError, st)"
  using assms by (simp_all add: get_def set_value_def keys_def delete_def clean_def)

lemma constructor_closed: "client (constructor c d) = None"
  by (simp add: constructor_def)

lemma close_releases: "quits a \<Longrightarrow> client (snd (close a st)) = None"
  by (simp add: close_def split: option.splits)

section \<open>Several keys in one get\<close>

lemma getSingleValue_frame:
  "client (snd (getSingleValue z scope k st)) = client st
   \<and> db (snd (getSingleValue z scope k st)) = db st
   \<and> keyPrefix (snd (getSingleValue z scope k st)) = keyPrefix st"
  by (simp add: getSingleValue_def client_get_def send_def Let_def
      split: option.splits sum.splits)


lemma getAll_frame:
  "client (snd (getAll z scope ks st)) = client st
   \<and> db (snd (getAll z scope ks st)) = db st
   \<and> keyPrefix (snd (getAll z scope ks st)) = keyPrefix st"
proof (induction ks arbitrary: st)
  case Nil
  show ?case by simp
next
  case (Cons k ks)
  show ?case
    using Cons.IH[of "snd (getSingleValue z scope k st)"] getSingleValue_frame[of z scope k st]
    by (simp add: split_beta)
qed







section \<open>One nested write after another\<close>

text \<open>
  Two nested assignments, one after the other, at paths that part ways at some segment:
  the value of the first is still found after the second (and the value of the second
  is found by \<open>lookup_nested_assign\<close>).
\<close>

lemma nested_assign_is_table:
  "segs \<noteq> [] \<Longrightarrow> \<exists>a h. nested_assign (LTable arr hash) segs v = LTable a h"
  by (cases segs; cases "tl segs") auto

lemma nested_assign_Cons:
  "nested_assign (LTable arr hash) (k # r) v
     = LTable arr (AList.update k (if r = [] then v else nested_assign (container_at hash k) r v) hash)"
  by (cases r) (simp_all del: container_at.simps)

lemma lookup_assigned_part:
  "lua_lookup (if r = [] then v else nested_assign (container_at hash k) r v) r = Some v"
proof (cases r)
  case Nil
  then show ?thesis by simp
next
  case (Cons k' r')
  obtain a h where "container_at hash k = LTable a h" using container_at_table by blast
  then show ?thesis using Cons lookup_nested_assign[of r a h v] by (simp del: container_at.simps)
qed

lemma nested_assign_keeps_other_leaf:
  assumes "k1 \<noteq> k2"
  shows "lua_lookup
           (nested_assign (nested_assign (LTable arr hash) (c @ k1 # r1) v1) (c @ k2 # r2) v2)
           (c @ k1 # r1) = Some v1"
proof (induction c arbitrary: arr hash)
  case Nil
  let ?X = "if r1 = [] then v1 else nested_assign (container_at hash k1) r1 v1"
  have "lua_lookup ?X r1 = Some v1" by (rule lookup_assigned_part)
  then show ?case using assms
    by (simp add: nested_assign_Cons update_conv' del: container_at.simps nested_assign.simps)
next
  case (Cons k c)
  obtain a h where ch: "container_at hash k = LTable a h" using container_at_table by blast
  let ?X = "nested_assign (LTable a h) (c @ k1 # r1) v1"
  obtain a' h' where x: "?X = LTable a' h'"
    using nested_assign_is_table[of "c @ k1 # r1" a h v1] by auto
  have first: "nested_assign (LTable arr hash) ((k # c) @ k1 # r1) v1
                 = LTable arr (AList.update k ?X hash)"
    using ch by (simp add: nested_assign_Cons del: container_at.simps nested_assign.simps)
  have cont: "container_at (AList.update k ?X hash) k = ?X"
    using x by (simp add: update_conv')
  have second: "nested_assign (LTable arr (AList.update k ?X hash)) ((k # c) @ k2 # r2) v2
                  = LTable arr (AList.update k (nested_assign ?X (c @ k2 # r2) v2) hash)"
    using cont by (simp add: nested_assign_Cons del: container_at.simps nested_assign.simps)
  have "lua_lookup (nested_assign ?X (c @ k2 # r2) v2) (c @ k1 # r1) = Some v1"
    using Cons.IH[of a h] .
  then show ?case
    unfolding first second by (simp add: update_conv')
qed

section \<open>The claims\<close>

subsection \<open>C1: a value set is the value got\<close>




subsection \<open>C2: nested writes issued at the same time\<close>

text \<open>
  C2 speaks of several instances writing at once.  Here a script is a function on the key
  space, run from start to end with nothing beside it; that the backend runs it so is
  taken from the backend, not shown.  What can be said of two nested writes is said of
  one after the other: \<open>nested_assign_keeps_other_leaf\<close>.
\<close>

subsection \<open>C3: operations on a store that is not open\<close>

text \<open>
  C3 at an \<open>open_store\<close> that failed.  Whatever the outside answers,
  \<open>open_store\<close> leaves a client in place: it makes the client first and no path
  resets it.  When \<^verbatim>\<open>connect()\<close> rejects, \<open>open_store\<close> reports
  the error and the client it has just made stays.
  A \<open>get\<close> after that passes the test for a null client, hands a
  \<^verbatim>\<open>GET\<close> to that client, and fails with the client's error, not with
  \<open>NotConnectedError\<close>; so do \<open>set_value\<close>, \<open>keys\<close>,
  \<open>delete\<close> and \<open>clean\<close>.  (On a store whose client is null, which
  is the store before \<open>open_store\<close> and after a \<open>close\<close> that
  succeeded, all five fail with \<open>NotConnectedError\<close> and hand nothing to a
  client: \<open>not_connected_rejects\<close>.)
\<close>

theorem get_after_failed_open:
  "client (snd (open_store a st)) \<noteq> None
   \<and> open_store unreachable (constructor c d)
     = (Inl BackendError, (constructor c d)\<lparr>client := Some Down, calls := [CONNECT]\<rparr>)
   \<and> fst (get z scope (Single k) (snd (open_store unreachable (constructor c d)))) = Inl BackendError
   \<and> calls (snd (get z scope (Single k) (snd (open_store unreachable (constructor c d)))))
       = [CONNECT, GET (buildKey (constructor c d) scope (hd (split (CHR ''.'') k)))]
   \<and> fst (set_value z scope k v (snd (open_store unreachable (constructor c d)))) = Inl BackendError
   \<and> fst (keys scope (snd (open_store unreachable (constructor c d)))) = Inl BackendError
   \<and> fst (delete scope (snd (open_store unreachable (constructor c d)))) = Inl BackendError
   \<and> fst (clean active (snd (open_store unreachable (constructor c d)))) = Inl BackendError"
proof -
  have "client (snd (open_store a st)) \<noteq> None"
    by (simp add: open_store_def send_def Let_def split: option.splits)
  then show ?thesis
    by (simp add: open_store_def unreachable_def constructor_def send_def get_def getSingleValue_def
        client_get_def Let_def parsePath_def buildKey_def set_value_def setSingleValue_def
        client_set_def client_eval_def keys_def delete_def clean_def client_keys_def)
qed

subsection \<open>C4: the nested set script\<close>




subsection \<open>C5: the nested delete script\<close>

text \<open>
  C5, as stated, fails: the script replies 1 whenever it reaches the final assignment,
  also when the final segment has no entry.  On the document
  \<^verbatim>\<open>{"y":1}\<close> with the sub-path \<^verbatim>\<open>x\<close> it replies 1 and
  the stored document is what it was.
\<close>

theorem deleteNestedScript_no_mutation:
  \<open>deleteNestedScript [(''nodered:context:global:doc'', ''{"y":1}'')]
       ''nodered:context:global:doc'' ''x''
     = Inr (1, [(''nodered:context:global:doc'', ''{"y":1}'')])\<close>
  by code_simp

text \<open>
  C5, amended.  When the key is absent the script replies 0 and the key space is
  unchanged (the key is not created).  When the stored document is an object or an array
  and the sub-path has at least one segment: if some segment but the last does not lead
  to a container, the script replies 0 and the key space is unchanged; otherwise it
  replies 1 and leaves at the key the text of the document without the entry of the last
  segment, whether or not there was such an entry.
\<close>

theorem deleteNestedScript_reply:
  "(map_of d key = None \<longrightarrow> deleteNestedScript d key path = Inr (0, d))
   \<and> (map_of d key = Some existing \<and> cjson_decode existing = Inr (LTable arr hash)
        \<and> gmatch_parts path \<noteq> [] \<longrightarrow>
        deleteNestedScript d key path
          = (if reaches_parent (LTable arr hash) (gmatch_parts path)
             then Inr (1, AList.update key
                           (cjson_encode (nested_remove (LTable arr hash) (gmatch_parts path))) d)
             else Inr (0, d))
        \<and> (reaches_parent (LTable arr hash) (gmatch_parts path) \<longrightarrow>
             lua_lookup (nested_remove (LTable arr hash) (gmatch_parts path)) (gmatch_parts path)
               = None))"
  by (simp add: deleteNestedScript_def delete_nested_table lookup_nested_remove)

theorem deleteNestedScript_reply_witness:
  \<open>deleteNestedScript [] ''nodered:context:global:doc'' ''a.b'' = Inr (0, [])
   \<and> deleteNestedScript [(''nodered:context:global:doc'', ''{"a":5}'')]
         ''nodered:context:global:doc'' ''a.b''
       = Inr (0, [(''nodered:context:global:doc'', ''{"a":5}'')])
   \<and> deleteNestedScript [(''nodered:context:global:doc'', ''{"a":{"b":1,"c":2}}'')]
         ''nodered:context:global:doc'' ''a.b''
       = Inr (1, [(''nodered:context:global:doc'', ''{"a":{"c":2}}'')])\<close>
proof -
  let ?k = "''nodered:context:global:doc''"
  have p: "gmatch_parts ''a.b'' = [''a'', ''b'']" by code_simp
  have a: "map_of ([] :: keyspace) ?k = None" by simp
  have b1: \<open>map_of [(?k, ''{"a":5}'')] ?k = Some ''{"a":5}''\<close> by simp
  have b2: \<open>cjson_decode ''{"a":5}'' = Inr (LTable [] [(''a'', LNum 5)])\<close> by code_simp
  have c1: \<open>map_of [(?k, ''{"a":{"b":1,"c":2}}'')] ?k = Some ''{"a":{"b":1,"c":2}}''\<close> by simp
  have c2: \<open>cjson_decode ''{"a":{"b":1,"c":2}}''
              = Inr (LTable [] [(''a'', LTable [] [(''b'', LNum 1), (''c'', LNum 2)])])\<close>
    by code_simp
  have c3: \<open>cjson_encode (nested_remove (LTable [] [(''a'', LTable [] [(''b'', LNum 1), (''c'', LNum 2)])])
                 [''a'', ''b'']) = ''{"a":{"c":2}}''\<close>
    by code_simp
  note t = deleteNestedScript_reply
  show ?thesis
    using t[of "[]" ?k "''a.b''"] a
      t[of \<open>[(?k, ''{"a":5}'')]\<close> ?k "''a.b''" \<open>''{"a":5}''\<close> "[]" "[(''a'', LNum 5)]"] b1 b2
      t[of \<open>[(?k, ''{"a":{"b":1,"c":2}}'')]\<close> ?k "''a.b''" \<open>''{"a":{"b":1,"c":2}}''\<close> "[]"
          "[(''a'', LTable [] [(''b'', LNum 1), (''c'', LNum 2)])]"] c1 c2 c3
    by (simp add: p)
qed

subsection \<open>C6: when a flat set compresses\<close>

text \<open>
  C6 at a text with characters outside ASCII: the string of 600 times the letter
  \<^verbatim>\<open>U+00E9\<close> has a JSON text of 602 code units, which is 1202 bytes of
  UTF-8.  With compression enabled the store compares the 602 with 1024 and writes the
  plain text, with no marker, although the text exceeds 1024 bytes.
\<close>

theorem flat_set_counts_code_units:
  "length (stringify (JStr (replicate 600 (CHR 0xE9)))) = 602
   \<and> utf8_length (stringify (JStr (replicate 600 (CHR 0xE9)))) = 1202
   \<and> compressionEnabled (opened compressing [])
   \<and> db (snd (set_value z ''global'' ''text'' (JStr (replicate 600 (CHR 0xE9))) (opened compressing [])))
       = [(''nodered:context:global:text'', CHR 0x22 # replicate 600 (CHR 0xE9) @ [CHR 0x22])]"
proof -
  have q: "quote (replicate 600 (CHR 0xE9)) = CHR 0x22 # replicate 600 (CHR 0xE9) @ [CHR 0x22]"
    by (simp add: quote_plain escape_char_def)
  have flat: "\<not> isNested (parsePath ''text'')" by (simp add: parsePath_def)
  have up: "client (opened compressing []) = Some Up" by (simp add: opened_simps)
  show ?thesis
    using flat_set_stores[OF up flat, of z "''global''" "JStr (replicate 600 (CHR 0xE9))"]
    by (simp add: q utf8_length_def opened_simps compressing_def normalize_default buildKey_def send_def)
qed

subsection \<open>C7: reading what is absent, and what is corrupt\<close>



subsection \<open>C8: cleaning\<close>




subsection \<open>C9: the key mapping\<close>

text \<open>
  C9, as stated, fails: the scope \<^verbatim>\<open>a:b\<close> with the segment
  \<^verbatim>\<open>c\<close> and the scope \<^verbatim>\<open>a\<close> with the segment
  \<^verbatim>\<open>b:c\<close> are different pairs with the same remote key, since
  \<open>buildKey\<close> joins its parts with the colon and escapes nothing.
\<close>

theorem buildKey_collision:
  "(''a:b'', ''c'') \<noteq> (''a'', ''b:c'')
   \<and> buildKey (constructor default_config []) ''a:b'' ''c''
       = buildKey (constructor default_config []) ''a'' ''b:c''"
  by (simp add: buildKey_def)

text \<open>
  C9, amended: for a fixed store (so a fixed normalized prefix), two different pairs of a
  scope and a top-level segment have different remote keys whenever neither segment
  contains a colon; the scopes may contain any character.
\<close>

theorem buildKey_injective:
  assumes "CHR '':'' \<notin> set k1" and "CHR '':'' \<notin> set k2" and "(s1, k1) \<noteq> (s2, k2)"
  shows "buildKey st s1 k1 \<noteq> buildKey st s2 k2"
proof
  assume "buildKey st s1 k1 = buildKey st s2 k2"
  then have eq: "s1 @ CHR '':'' # k1 = s2 @ CHR '':'' # k2" by (simp add: buildKey_def)
  have "s1 = s2 \<and> k1 = k2" using colon_split_unique[OF eq assms(1,2)] .
  with assms(3) show False by simp
qed

theorem buildKey_injective_witness:
  "buildKey (constructor default_config []) ''flow:f1'' ''count''
     \<noteq> buildKey (constructor default_config []) ''flow:f1:count'' []"
  using buildKey_injective[of "''count''" "[]" "''flow:f1''" "''flow:f1:count''" "constructor default_config []"]
  by simp

subsection \<open>C10: closing\<close>

text \<open>
  C10: \<open>close\<close> on a store whose client is null (never opened, or closed before)
  succeeds and leaves the state as it is, so it hands no command to a client; a store
  fresh from the constructor is such a store; and after a \<open>close\<close> that succeeded
  the client is null, so a second \<open>close\<close> succeeds and changes nothing, whatever
  the backend would answer.
\<close>

theorem close_idempotent:
  "(client st = None \<longrightarrow> close a st = (Inr (), st))
   \<and> close a (constructor c d) = (Inr (), constructor c d)
   \<and> (fst (close a st) = Inr () \<longrightarrow>
        client (snd (close a st)) = None
        \<and> close a' (snd (close a st)) = (Inr (), snd (close a st)))"
  by (auto simp: close_def constructor_def split: option.splits if_splits)

theorem close_idempotent_witness:
  "client (snd (open_store all_ok (constructor default_config []))) = Some Up
   \<and> fst (close all_ok (snd (open_store all_ok (constructor default_config [])))) = Inr ()
   \<and> calls (snd (close all_ok (snd (open_store all_ok (constructor default_config [])))))
       = [CONNECT, PING, SCRIPT_LOAD, SCRIPT_LOAD, QUIT]
   \<and> client (snd (close all_ok (snd (open_store all_ok (constructor default_config []))))) = None
   \<and> close all_ok (snd (close all_ok (snd (open_store all_ok (constructor default_config [])))))
       = (Inr (), snd (close all_ok (snd (open_store all_ok (constructor default_config [])))))
   \<and> close all_ok (constructor default_config []) = (Inr (), constructor default_config [])"
  using close_idempotent[of "snd (open_store all_ok (constructor default_config []))" all_ok default_config "[]" all_ok]
  by (simp add: open_store_def close_def all_ok_def constructor_def send_def Let_def)

end
